theory Spec2Isabelle
  imports Complex_Main
begin

section \<open>JavaScript values used by the handlers\<close>

text \<open>
  The service is a set of Express handlers (\<^verbatim>\<open>index.js\<close>, \<^verbatim>\<open>server.js\<close>) that translate
  a JSON request into calls on the Google Calendar client and format a \<^verbatim>\<open>result\<close>
  string. The calendar provider is a black box; the handlers are modelled as functions
  from the request, the process state and the provider's answers to the HTTP response,
  the list of provider calls issued and the provider's final state.

  A property that may be absent is an \<open>option\<close> (\<open>None\<close> is \<^verbatim>\<open>undefined\<close>).
  Request fields are typed as the interface documents them: strings for dates, times,
  titles and identifiers, integers for durations in minutes.
\<close>

datatype js_error =
    TypeError
  | RangeError
  | ProviderError string

text \<open>Truthiness of an optional string and of an optional number (\<^verbatim>\<open>!x\<close>, \<^verbatim>\<open>x || y\<close>).\<close>

definition truthy :: "string option \<Rightarrow> bool" where
  "truthy x = (case x of None \<Rightarrow> False | Some s \<Rightarrow> s \<noteq> [])"

definition truthy_num :: "int option \<Rightarrow> bool" where
  "truthy_num x = (case x of None \<Rightarrow> False | Some n \<Rightarrow> n \<noteq> 0)"

text \<open>\<^verbatim>\<open>x || d\<close> on an optional string with a string default.\<close>

definition or_default :: "string option \<Rightarrow> string \<Rightarrow> string" where
  "or_default x d = (case x of None \<Rightarrow> d | Some s \<Rightarrow> if s = [] then d else s)"

text \<open>\<^verbatim>\<open>x || y\<close> on two optional strings.\<close>

definition or_else :: "string option \<Rightarrow> string option \<Rightarrow> string option" where
  "or_else x y = (if truthy x then x else y)"

text \<open>A value inside a template literal: \<^verbatim>\<open>`${x}`\<close> prints \<^verbatim>\<open>undefined\<close> for an absent one.\<close>

definition tmpl :: "string option \<Rightarrow> string" where
  "tmpl x = (case x of None \<Rightarrow> ''undefined'' | Some s \<Rightarrow> s)"

definition digit_char :: "nat \<Rightarrow> char" where
  "digit_char d = ''0123456789'' ! d"

function show_nat :: "nat \<Rightarrow> string" where
  "show_nat n = (if n < 10 then [digit_char n] else show_nat (n div 10) @ [digit_char (n mod 10)])"
  by pat_completeness auto
termination
  by (relation "measure id") auto

declare show_nat.simps [simp del]

definition show_int :: "int \<Rightarrow> string" where
  "show_int i = (if i < 0 then CHR ''-'' # show_nat (nat (- i)) else show_nat (nat i))"

text \<open>The last \<open>n\<close> decimal digits of \<open>k\<close>, zero padded (\<^verbatim>\<open>padStart(n, '0')\<close> on values that fit).\<close>

fun pad :: "nat \<Rightarrow> nat \<Rightarrow> string" where
  "pad 0 k = []"
| "pad (Suc n) k = pad n (k div 10) @ [digit_char (k mod 10)]"

fun join :: "string \<Rightarrow> string list \<Rightarrow> string" where
  "join sep [] = []"
| "join sep [x] = x"
| "join sep (x # y # ys) = x @ sep @ join sep (y # ys)"

section \<open>The Date object\<close>

text \<open>
  A Date holds a time value: milliseconds since the epoch, or NaN (\<open>None\<close>, an
  Invalid Date). Every constructor clips the value to the range of the language.
\<close>

definition time_clip :: "int \<Rightarrow> int option" where
  "time_clip t = (if \<bar>t\<bar> \<le> 8640000000000000 then Some t else None)"

text \<open>Days since the epoch of a civil date (proleptic Gregorian calendar), and back.\<close>

definition days_from_civil :: "int \<Rightarrow> int \<Rightarrow> int \<Rightarrow> int" where
  "days_from_civil y m d =
     (let y' = (if m \<le> 2 then y - 1 else y);
          era = y' div 400;
          yoe = y' - era * 400;
          doy = (153 * (if m > 2 then m - 3 else m + 9) + 2) div 5 + d - 1;
          doe = yoe * 365 + yoe div 4 - yoe div 100 + doy
      in era * 146097 + doe - 719468)"

definition civil_from_days :: "int \<Rightarrow> int \<times> int \<times> int" where
  "civil_from_days z =
     (let z' = z + 719468;
          era = z' div 146097;
          doe = z' - era * 146097;
          yoe = (doe - doe div 1460 + doe div 36524 - doe div 146096) div 365;
          doy = doe - (365 * yoe + yoe div 4 - yoe div 100);
          mp = (5 * doy + 2) div 153;
          d = doy - (153 * mp + 2) div 5 + 1;
          m = (if mp < 10 then mp + 3 else mp - 9);
          y = yoe + era * 400
      in (if m \<le> 2 then y + 1 else y, m, d))"

definition leap_year :: "int \<Rightarrow> bool" where
  "leap_year y = (y mod 4 = 0 \<and> (y mod 100 \<noteq> 0 \<or> y mod 400 = 0))"

definition days_in_month :: "int \<Rightarrow> int \<Rightarrow> int" where
  "days_in_month y m =
     (if m = 2 then (if leap_year y then 29 else 28)
      else if m = 4 \<or> m = 6 \<or> m = 9 \<or> m = 11 then 30 else 31)"

definition make_date :: "int \<Rightarrow> int \<Rightarrow> int \<Rightarrow> int \<Rightarrow> int \<Rightarrow> int \<Rightarrow> int" where
  "make_date y m d h mi s =
     days_from_civil y m d * 86400000 + h * 3600000 + mi * 60000 + s * 1000"

definition digit_val :: "char \<Rightarrow> nat option" where
  "digit_val c = (let n = (of_char c :: nat) in if 48 \<le> n \<and> n \<le> 57 then Some (n - 48) else None)"

fun digits :: "nat \<Rightarrow> string \<Rightarrow> nat option" where
  "digits acc [] = Some acc"
| "digits acc (c # cs) = (case digit_val c of None \<Rightarrow> None | Some d \<Rightarrow> digits (10 * acc + d) cs)"

text \<open>
  The date-time form \<^verbatim>\<open>YYYY-MM-DDTHH:mm:ss\<close> of the language's date string format, with
  every field in range. A string of this form has no offset and is read as local time.
\<close>

definition parse_iso_local :: "string \<Rightarrow> (int \<times> int \<times> int \<times> int \<times> int \<times> int) option" where
  "parse_iso_local s =
     (if length s = 19 \<and> s ! 4 = CHR ''-'' \<and> s ! 7 = CHR ''-'' \<and> s ! 10 = CHR ''T''
         \<and> s ! 13 = CHR '':'' \<and> s ! 16 = CHR '':''
      then
        (case (digits 0 (take 4 s), digits 0 (take 2 (drop 5 s)), digits 0 (take 2 (drop 8 s)),
               digits 0 (take 2 (drop 11 s)), digits 0 (take 2 (drop 14 s)),
               digits 0 (take 2 (drop 17 s))) of
           (Some y, Some m, Some d, Some h, Some mi, Some sec) \<Rightarrow>
             if 1 \<le> m \<and> m \<le> 12 \<and> 1 \<le> d \<and> int d \<le> days_in_month (int y) (int m)
                \<and> h \<le> 23 \<and> mi \<le> 59 \<and> sec \<le> 59
             then Some (int y, int m, int d, int h, int mi, int sec)
             else None
         | _ \<Rightarrow> None)
      else None)"

text \<open>
  What the handlers use of the JavaScript runtime and cannot be read from the
  repository: the process's local time zone (\<open>localTZA t\<close> is the offset from UTC, in
  milliseconds, of the local time \<open>t\<close>), \<^verbatim>\<open>Date.parse\<close> on strings outside the two
  forms modelled here (implementation defined), and the two locale formatters the
  handlers call.
  \<open>toLocaleString\<close> is \<^verbatim>\<open>toLocaleString('en-US', {hour: 'numeric', minute: '2-digit',
  timeZone: tz, hour12: true})\<close>, which throws on a zone name it does not know;
  \<open>toLocaleTimeString\<close> is \<^verbatim>\<open>toLocaleTimeString('en-US', {hour: 'numeric', minute:
  '2-digit'})\<close>, in the process's zone.
\<close>

record js_runtime =
  localTZA :: "int \<Rightarrow> int"
  parse_other :: "string \<Rightarrow> int option"
  toLocaleString :: "string \<Rightarrow> int option \<Rightarrow> js_error + string"
  toLocaleTimeString :: "int option \<Rightarrow> string"

text \<open>
  \<^verbatim>\<open>new Date(s)\<close> for a string \<open>s\<close>: the time value of the new Date. A date-time
  without offset is local time; the form \<^verbatim>\<open>YYYY-MM-DDTHH:mm:ss.sssZ\<close> is UTC.
\<close>

definition parse_iso_utc :: "string \<Rightarrow> int option" where
  "parse_iso_utc s =
     (if length s = 24 \<and> s ! 19 = CHR ''.'' \<and> s ! 23 = CHR ''Z''
      then
        (case (parse_iso_local (take 19 s), digits 0 (take 3 (drop 20 s))) of
           (Some (y, m, d, h, mi, sec), Some ms) \<Rightarrow> Some (make_date y m d h mi sec + int ms)
         | _ \<Rightarrow> None)
      else None)"

definition new_Date :: "js_runtime \<Rightarrow> string \<Rightarrow> int option" where
  "new_Date rt s =
     (case parse_iso_local s of
        Some (y, m, d, h, mi, sec) \<Rightarrow>
          (let t = make_date y m d h mi sec in time_clip (t - localTZA rt t))
      | None \<Rightarrow>
          (case parse_iso_utc s of
             Some t \<Rightarrow> time_clip t
           | None \<Rightarrow> (case parse_other rt s of None \<Rightarrow> None | Some t \<Rightarrow> time_clip t)))"

text \<open>\<^verbatim>\<open>new Date(x)\<close> for an optional string: \<^verbatim>\<open>new Date(undefined)\<close> is an Invalid Date.\<close>

definition new_Date_opt :: "js_runtime \<Rightarrow> string option \<Rightarrow> int option" where
  "new_Date_opt rt x = (case x of None \<Rightarrow> None | Some s \<Rightarrow> new_Date rt s)"

text \<open>\<^verbatim>\<open>new Date(n)\<close> for a number: NaN stays NaN, a fraction is truncated towards zero.\<close>

definition new_Date_num :: "rat option \<Rightarrow> int option" where
  "new_Date_num x =
     (case x of None \<Rightarrow> None
      | Some q \<Rightarrow> time_clip (if 0 \<le> q then \<lfloor>q\<rfloor> else \<lceil>q\<rceil>))"

definition year_string :: "int \<Rightarrow> string" where
  "year_string y =
     (if 0 \<le> y \<and> y \<le> 9999 then pad 4 (nat y)
      else (if y < 0 then CHR ''-'' else CHR ''+'') # pad 6 (nat \<bar>y\<bar>))"

text \<open>\<^verbatim>\<open>toISOString()\<close>: UTC, milliseconds included; a RangeError on an Invalid Date.\<close>

definition toISOString :: "int option \<Rightarrow> js_error + string" where
  "toISOString tv =
     (case tv of
        None \<Rightarrow> Inl RangeError
      | Some t \<Rightarrow>
          (let day = t div 86400000;
               ms = t mod 86400000;
               (y, m, d) = civil_from_days day
           in Inr (year_string y @ ''-'' @ pad 2 (nat m) @ ''-'' @ pad 2 (nat d) @ ''T''
                   @ pad 2 (nat (ms div 3600000)) @ '':''
                   @ pad 2 (nat (ms mod 3600000 div 60000)) @ '':''
                   @ pad 2 (nat (ms mod 60000 div 1000)) @ ''.''
                   @ pad 3 (nat (ms mod 1000)) @ ''Z'')))"

section \<open>Requests, responses and the calendar provider\<close>

text \<open>
  \<^verbatim>\<open>req.body\<close> is an object that may hold \<^verbatim>\<open>args\<close>, or is absent altogether. Field
  names of the request records carry a prefix for their endpoint (\<open>ca\<close>
  check-availability, \<open>ce\<close> create-event, \<open>ue\<close> update-event, \<open>xe\<close> cancel-event).
\<close>

datatype 'a body = Body "'a option"

record avail_args =
  ca_date :: "string option"
  ca_startTime :: "string option"
  ca_endTime :: "string option"

record create_args =
  ce_title :: "string option"
  ce_date :: "string option"
  ce_startTime :: "string option"
  ce_duration :: "int option"
  ce_description :: "string option"
  ce_attendeeEmail :: "string option"

record update_args =
  ue_eventId :: "string option"
  ue_newDate :: "string option"
  ue_newTime :: "string option"
  ue_newDuration :: "int option"

record cancel_args =
  xe_eventId :: "string option"

text \<open>The empty object \<^verbatim>\<open>{}\<close>: every property is undefined.\<close>

definition no_avail_args :: avail_args where
  "no_avail_args = \<lparr>ca_date = None, ca_startTime = None, ca_endTime = None\<rparr>"

definition no_create_args :: create_args where
  "no_create_args = \<lparr>ce_title = None, ce_date = None, ce_startTime = None, ce_duration = None,
     ce_description = None, ce_attendeeEmail = None\<rparr>"

definition no_update_args :: update_args where
  "no_update_args = \<lparr>ue_eventId = None, ue_newDate = None, ue_newTime = None, ue_newDuration = None\<rparr>"

definition no_cancel_args :: cancel_args where
  "no_cancel_args = \<lparr>xe_eventId = None\<rparr>"

text \<open>\<^verbatim>\<open>const { args = {} } = req.body\<close>, for a body that is there.\<close>

definition avail_args_of :: "avail_args option \<Rightarrow> avail_args" where
  "avail_args_of a = (case a of None \<Rightarrow> no_avail_args | Some x \<Rightarrow> x)"

definition create_args_of :: "create_args option \<Rightarrow> create_args" where
  "create_args_of a = (case a of None \<Rightarrow> no_create_args | Some x \<Rightarrow> x)"

definition update_args_of :: "update_args option \<Rightarrow> update_args" where
  "update_args_of a = (case a of None \<Rightarrow> no_update_args | Some x \<Rightarrow> x)"

definition cancel_args_of :: "cancel_args option \<Rightarrow> cancel_args" where
  "cancel_args_of a = (case a of None \<Rightarrow> no_cancel_args | Some x \<Rightarrow> x)"

text \<open>The event resource of the provider, with the properties the handlers read or write.\<close>

record event_time =
  dateTime :: "string option"
  date :: "string option"
  timeZone :: "string option"

record reminder_override =
  rem_method :: string
  rem_minutes :: nat

record reminders =
  useDefault :: bool
  overrides :: "reminder_override list"

record event =
  event_id :: "string option"
  summary :: "string option"
  description :: "string option"
  start :: "event_time option"
  end' :: "event_time option"
  event_reminders :: "reminders option"
  attendees :: "string list option"
  htmlLink :: "string option"

text \<open>
  The object \<^verbatim>\<open>calendar.events.get\<close> resolves to. The update handler reads
  \<^verbatim>\<open>.start\<close>, \<^verbatim>\<open>.end\<close> and \<^verbatim>\<open>.data\<close> of it; the client library's response carries the
  event under \<^verbatim>\<open>.data\<close> and has no \<^verbatim>\<open>.start\<close> or \<^verbatim>\<open>.end\<close> of its own.
\<close>

record get_response =
  r_data :: "event option"
  r_start :: "event_time option"
  r_end :: "event_time option"

record list_params =
  l_calendarId :: string
  l_timeMin :: string
  l_timeMax :: string
  l_singleEvents :: bool
  l_orderBy :: "string option"
  l_timeZone :: "string option"

record insert_params =
  i_calendarId :: string
  i_resource :: event
  i_sendUpdates :: "string option"

record get_params =
  g_calendarId :: string
  g_eventId :: string

record update_params =
  u_calendarId :: string
  u_eventId :: string
  u_resource :: "event option"

record delete_params =
  d_calendarId :: string
  d_eventId :: string

datatype provider_call =
    EventsList list_params
  | EventsInsert insert_params
  | EventsGet get_params
  | EventsUpdate update_params
  | EventsDelete delete_params

datatype call_result = Returned | Threw js_error

type_synonym call_log = "(provider_call \<times> call_result) list"

text \<open>
  The calendar handle over a provider state \<open>'s\<close>. A call returns or throws; \<open>list\<close>
  and \<open>get\<close> read the state, the other three may change it. \<open>events_list\<close> yields
  \<^verbatim>\<open>response.data.items\<close>, \<open>events_insert\<close> and \<open>events_update\<close> yield \<^verbatim>\<open>response.data\<close>.
\<close>

record 's calendar_api =
  events_list :: "list_params \<Rightarrow> 's \<Rightarrow> js_error + event list option"
  events_get :: "get_params \<Rightarrow> 's \<Rightarrow> js_error + get_response"
  events_insert :: "insert_params \<Rightarrow> 's \<Rightarrow> (js_error + event) \<times> 's"
  events_update :: "update_params \<Rightarrow> 's \<Rightarrow> (js_error + event) \<times> 's"
  events_delete :: "delete_params \<Rightarrow> 's \<Rightarrow> (js_error + unit) \<times> 's"

text \<open>The environment variables the handlers read.\<close>

record env =
  TIMEZONE :: "string option"
  GOOGLE_CALENDAR_ID :: "string option"

record http_response =
  status :: nat
  result :: string
  eventId :: "string option"
  eventLink :: "string option"

text \<open>\<^verbatim>\<open>res.json({ result: msg })\<close>: status 200.\<close>

definition json_result :: "string \<Rightarrow> http_response" where
  "json_result msg = \<lparr>status = 200, result = msg, eventId = None, eventLink = None\<rparr>"

text \<open>What a request does: the response sent, the provider calls issued in order, each
  with how it ended, and the provider's state afterwards.\<close>

record 's outcome =
  response :: http_response
  calls :: call_log
  final :: 's

definition dq :: string where
  "dq = [CHR 0x22]"

definition CALENDAR_ID :: "env \<Rightarrow> string" where
  "CALENDAR_ID e = or_default (GOOGLE_CALENDAR_ID e) ''colinyuan3333@gmail.com''"

definition configured_timezone :: "env \<Rightarrow> string" where
  "configured_timezone e = or_default (TIMEZONE e) ''America/Chicago''"

section \<open>The handlers of index.js\<close>

text \<open>
  The global \<^verbatim>\<open>calendar\<close> is \<^verbatim>\<open>null\<close> (\<open>None\<close>) until initialisation has succeeded.
  \<open>requireCalendar\<close> is the middleware in front of the four operation endpoints.
\<close>

definition initializing_message :: string where
  "initializing_message = ''The calendar service is still initializing. Please try again in a moment.''"

definition requireCalendar ::
  "'s calendar_api option \<Rightarrow> ('s calendar_api \<Rightarrow> 's \<Rightarrow> 's outcome) \<Rightarrow> 's \<Rightarrow> 's outcome" where
  "requireCalendar calendar next s =
     (case calendar of
        None \<Rightarrow> \<lparr>response = json_result initializing_message, calls = [], final = s\<rparr>
      | Some c \<Rightarrow> next c s)"

text \<open>
  \<^verbatim>\<open>try { ... } catch (error) { res.json({ result: apology }) }\<close>: the body either
  sends a response or throws; what it called and changed before throwing stays.
\<close>

definition try_catch :: "string \<Rightarrow> (js_error + http_response) \<times> call_log \<times> 's \<Rightarrow> 's outcome" where
  "try_catch apology r =
     (case r of
        (Inl e, cs, s') \<Rightarrow> \<lparr>response = json_result apology, calls = cs, final = s'\<rparr>
      | (Inr resp, cs, s') \<Rightarrow> \<lparr>response = resp, calls = cs, final = s'\<rparr>)"

subsection \<open>POST /check-availability\<close>

definition availability_guidance :: string where
  "availability_guidance = ''I need a date, start time, and end time to check availability. Could you please provide those details?''"

definition availability_apology :: string where
  "availability_apology = ''I encountered an issue checking the calendar. Please try again.''"

definition free_message :: "string \<Rightarrow> string \<Rightarrow> string \<Rightarrow> string" where
  "free_message d st en =
     ''Great news! Your calendar is completely free on '' @ d @ '' between '' @ st @ '' and '' @ en @ ''.''"

definition busy_message :: "string \<Rightarrow> nat \<Rightarrow> string \<Rightarrow> string" where
  "busy_message d n eventSummaries =
     ''On '' @ d @ '', you have '' @ show_nat n @ '' appointment'' @ (if n > 1 then ''s'' else [])
       @ '': '' @ eventSummaries @ ''. Would you like to schedule around these times?''"

text \<open>One element of \<^verbatim>\<open>events.map(event => ...)\<close>: the start in the configured zone and the title.\<close>

definition event_summary :: "js_runtime \<Rightarrow> string \<Rightarrow> event \<Rightarrow> js_error + string" where
  "event_summary rt tz ev =
     (case start ev of
        None \<Rightarrow> Inl TypeError
      | Some st \<Rightarrow>
          (let eventStart = or_else (dateTime st) (date st);
               startDate = new_Date_opt rt eventStart
           in case toLocaleString rt tz startDate of
                Inl e \<Rightarrow> Inl e
              | Inr formattedTime \<Rightarrow> Inr (formattedTime @ '': '' @ or_default (summary ev) ''Busy'')))"

fun event_summaries :: "js_runtime \<Rightarrow> string \<Rightarrow> event list \<Rightarrow> js_error + string list" where
  "event_summaries rt tz [] = Inr []"
| "event_summaries rt tz (ev # evs) =
     (case event_summary rt tz ev of
        Inl e \<Rightarrow> Inl e
      | Inr x \<Rightarrow>
          (case event_summaries rt tz evs of
             Inl e \<Rightarrow> Inl e
           | Inr xs \<Rightarrow> Inr (x # xs)))"

definition check_availability_body ::
  "js_runtime \<Rightarrow> env \<Rightarrow> 's calendar_api \<Rightarrow> avail_args body option \<Rightarrow> 's
     \<Rightarrow> (js_error + http_response) \<times> call_log \<times> 's" where
  "check_availability_body rt ev calendar req s =
     (case req of
        None \<Rightarrow> (Inl TypeError, [], s)
      | Some (Body a) \<Rightarrow>
          (let args = avail_args_of a in
           if \<not> truthy (ca_date args) \<or> \<not> truthy (ca_startTime args) \<or> \<not> truthy (ca_endTime args)
           then (Inr (json_result availability_guidance), [], s)
           else
             (let timeZone = configured_timezone ev in
              case toISOString (new_Date rt (tmpl (ca_date args) @ ''T'' @ tmpl (ca_startTime args) @ '':00'')) of
                Inl e \<Rightarrow> (Inl e, [], s)
              | Inr timeMin \<Rightarrow>
              (case toISOString (new_Date rt (tmpl (ca_date args) @ ''T'' @ tmpl (ca_endTime args) @ '':00'')) of
                Inl e \<Rightarrow> (Inl e, [], s)
              | Inr timeMax \<Rightarrow>
                 (let p = \<lparr>l_calendarId = CALENDAR_ID ev, l_timeMin = timeMin, l_timeMax = timeMax,
                            l_singleEvents = True, l_orderBy = Some ''startTime'',
                            l_timeZone = Some timeZone\<rparr>
                  in case events_list calendar p s of
                       Inl e \<Rightarrow> (Inl e, [(EventsList p, Threw e)], s)
                     | Inr items \<Rightarrow>
                         (let events = (case items of None \<Rightarrow> [] | Some xs \<Rightarrow> xs) in
                          if length events = 0
                          then (Inr (json_result (free_message (tmpl (ca_date args))
                                   (tmpl (ca_startTime args)) (tmpl (ca_endTime args)))),
                                [(EventsList p, Returned)], s)
                          else
                            (case event_summaries rt timeZone events of
                               Inl e \<Rightarrow> (Inl e, [(EventsList p, Returned)], s)
                             | Inr xs \<Rightarrow>
                                 (Inr (json_result (busy_message (tmpl (ca_date args))
                                         (length events) (join '', '' xs))),
                                  [(EventsList p, Returned)], s))))))))"

definition check_availability ::
  "js_runtime \<Rightarrow> env \<Rightarrow> 's calendar_api option \<Rightarrow> avail_args body option \<Rightarrow> 's \<Rightarrow> 's outcome" where
  "check_availability rt ev calendar req s =
     requireCalendar calendar
       (\<lambda>c s. try_catch availability_apology (check_availability_body rt ev c req s)) s"

subsection \<open>POST /create-event\<close>

definition create_guidance :: string where
  "create_guidance = ''To create an appointment, I need a title, date, and start time. What would you like to schedule?''"

definition create_apology :: string where
  "create_apology = ''I couldn't create the appointment. Please check the details and try again.''"

definition conflict_message :: string where
  "conflict_message = ''There's already an appointment scheduled at that time. Would you like me to find another available time slot?''"

definition created_message :: "string \<Rightarrow> string \<Rightarrow> string \<Rightarrow> int \<Rightarrow> string option \<Rightarrow> string" where
  "created_message title d formattedTime duration attendeeEmail =
     ''Perfect! I've scheduled '' @ dq @ title @ dq @ '' on '' @ d @ '' at '' @ formattedTime
       @ '' for '' @ show_int duration @ '' minutes. ''
       @ (if truthy attendeeEmail then ''An invitation has been sent to '' @ tmpl attendeeEmail @ ''.'' else [])
       @ '' You'll receive a reminder 30 minutes before.''"

text \<open>\<^verbatim>\<open>new Date(startDateTime.getTime() + duration * 60000)\<close>, for a whole number of minutes.\<close>

definition plus_minutes :: "int option \<Rightarrow> int \<Rightarrow> int option" where
  "plus_minutes tv duration =
     (case tv of None \<Rightarrow> None | Some t \<Rightarrow> time_clip (t + duration * 60000))"

definition default_reminders :: reminders where
  "default_reminders =
     \<lparr>useDefault = False,
      overrides = [\<lparr>rem_method = ''email'', rem_minutes = 24 * 60\<rparr>,
                   \<lparr>rem_method = ''popup'', rem_minutes = 30\<rparr>]\<rparr>"

text \<open>The resource the create handler inserts. \<open>startISO\<close> and \<open>endISO\<close> are
  \<^verbatim>\<open>startDateTime.toISOString()\<close> and \<^verbatim>\<open>endDateTime.toISOString()\<close>.\<close>

definition new_event :: "env \<Rightarrow> create_args \<Rightarrow> string \<Rightarrow> string \<Rightarrow> event" where
  "new_event ev args startISO endISO =
     \<lparr>event_id = None,
      summary = ce_title args,
      description = Some (or_default (ce_description args) ''Appointment created via Retell voice agent''),
      start = Some \<lparr>dateTime = Some startISO, date = None, timeZone = Some (configured_timezone ev)\<rparr>,
      end' = Some \<lparr>dateTime = Some endISO, date = None, timeZone = Some (configured_timezone ev)\<rparr>,
      event_reminders = Some default_reminders,
      attendees = (if truthy (ce_attendeeEmail args) then Some [tmpl (ce_attendeeEmail args)] else None),
      htmlLink = None\<rparr>"

definition create_event_body ::
  "js_runtime \<Rightarrow> env \<Rightarrow> 's calendar_api \<Rightarrow> create_args body option \<Rightarrow> 's
     \<Rightarrow> (js_error + http_response) \<times> call_log \<times> 's" where
  "create_event_body rt ev calendar req s =
     (case req of
        None \<Rightarrow> (Inl TypeError, [], s)
      | Some (Body a) \<Rightarrow>
          (let args = create_args_of a;
               duration = (case ce_duration args of None \<Rightarrow> 60 | Some d \<Rightarrow> d)
           in
           if \<not> truthy (ce_title args) \<or> \<not> truthy (ce_date args) \<or> \<not> truthy (ce_startTime args)
           then (Inr (json_result create_guidance), [], s)
           else
             (let startDateTime = new_Date rt (tmpl (ce_date args) @ ''T'' @ tmpl (ce_startTime args) @ '':00'');
                  endDateTime = plus_minutes startDateTime duration
              in
              case toISOString startDateTime of
                Inl e \<Rightarrow> (Inl e, [], s)
              | Inr startISO \<Rightarrow>
              (case toISOString endDateTime of
                Inl e \<Rightarrow> (Inl e, [], s)
              | Inr endISO \<Rightarrow>
                 (let lp = \<lparr>l_calendarId = CALENDAR_ID ev, l_timeMin = startISO, l_timeMax = endISO,
                             l_singleEvents = True, l_orderBy = None, l_timeZone = None\<rparr>
                  in case events_list calendar lp s of
                       Inl e \<Rightarrow> (Inl e, [(EventsList lp, Threw e)], s)
                     | Inr items \<Rightarrow>
                         if (case items of None \<Rightarrow> False | Some xs \<Rightarrow> length xs > 0)
                         then (Inr (json_result conflict_message), [(EventsList lp, Returned)], s)
                         else
                           (let ip = \<lparr>i_calendarId = CALENDAR_ID ev,
                                       i_resource = new_event ev args startISO endISO,
                                       i_sendUpdates = Some (if truthy (ce_attendeeEmail args) then ''all'' else ''none'')\<rparr>
                            in case events_insert calendar ip s of
                                 (Inl e, s') \<Rightarrow>
                                   (Inl e, [(EventsList lp, Returned), (EventsInsert ip, Threw e)], s')
                               | (Inr created, s') \<Rightarrow>
                                   (let formattedTime = toLocaleTimeString rt startDateTime in
                                    (Inr \<lparr>status = 200,
                                          result = created_message (tmpl (ce_title args)) (tmpl (ce_date args))
                                                     formattedTime duration (ce_attendeeEmail args),
                                          eventId = event_id created,
                                          eventLink = htmlLink created\<rparr>,
                                     [(EventsList lp, Returned), (EventsInsert ip, Returned)], s'))))))))"

definition create_event ::
  "js_runtime \<Rightarrow> env \<Rightarrow> 's calendar_api option \<Rightarrow> create_args body option \<Rightarrow> 's \<Rightarrow> 's outcome" where
  "create_event rt ev calendar req s =
     requireCalendar calendar
       (\<lambda>c s. try_catch create_apology (create_event_body rt ev c req s)) s"

subsection \<open>POST /update-event\<close>

definition update_guidance :: string where
  "update_guidance = ''To update an appointment, I need the event ID and at least one thing to change (date, time, or duration).''"

definition update_apology :: string where
  "update_apology = ''I couldn't update the appointment. Please make sure you have the correct event ID.''"

definition updated_message :: "string option \<Rightarrow> string option \<Rightarrow> string" where
  "updated_message newDate newTime =
     ''I've successfully updated your appointment. ''
       @ (if truthy newDate then ''New date: '' @ tmpl newDate @ ''.'' else [])
       @ '' ''
       @ (if truthy newTime then ''New time: '' @ tmpl newTime @ ''.'' else [])"

text \<open>\<^verbatim>\<open>s.split(c)\<close> for a one-character separator: never empty.\<close>

fun split_str :: "char \<Rightarrow> string \<Rightarrow> string list" where
  "split_str c [] = [[]]"
| "split_str c (x # xs) =
     (if x = c then [] # split_str c xs
      else (case split_str c xs of
              [] \<Rightarrow> [[x]]
            | y # ys \<Rightarrow> (x # y) # ys))"

text \<open>\<^verbatim>\<open>xs[i]\<close> on an array: \<^verbatim>\<open>undefined\<close> out of range.\<close>

definition at_index :: "'a list \<Rightarrow> nat \<Rightarrow> 'a option" where
  "at_index xs i = (if i < length xs then Some (xs ! i) else None)"

text \<open>\<^verbatim>\<open>existingEvent.start.dateTime.split('T')\<close>: a TypeError when \<^verbatim>\<open>.start\<close> or its
  \<^verbatim>\<open>.dateTime\<close> is undefined.\<close>

definition start_dateTime_parts :: "get_response \<Rightarrow> js_error + string list" where
  "start_dateTime_parts existingEvent =
     (case r_start existingEvent of
        None \<Rightarrow> Inl TypeError
      | Some st \<Rightarrow>
          (case dateTime st of
             None \<Rightarrow> Inl TypeError
           | Some dt \<Rightarrow> Inr (split_str CHR ''T'' dt)))"

text \<open>\<^verbatim>\<open>newDate || existingEvent.start.dateTime.split('T')[0]\<close>\<close>

definition merged_date :: "update_args \<Rightarrow> get_response \<Rightarrow> js_error + string option" where
  "merged_date args existingEvent =
     (if truthy (ue_newDate args) then Inr (ue_newDate args)
      else (case start_dateTime_parts existingEvent of
              Inl e \<Rightarrow> Inl e
            | Inr parts \<Rightarrow> Inr (at_index parts 0)))"

text \<open>\<^verbatim>\<open>newTime || existingEvent.start.dateTime.split('T')[1].substring(0, 5)\<close>\<close>

definition merged_time :: "update_args \<Rightarrow> get_response \<Rightarrow> js_error + string option" where
  "merged_time args existingEvent =
     (if truthy (ue_newTime args) then Inr (ue_newTime args)
      else (case start_dateTime_parts existingEvent of
              Inl e \<Rightarrow> Inl e
            | Inr parts \<Rightarrow>
                (case at_index parts 1 of
                   None \<Rightarrow> Inl TypeError
                 | Some p \<Rightarrow> Inr (Some (take 5 p)))))"

text \<open>
  \<^verbatim>\<open>newDuration || (new Date(existingEvent.end.dateTime) - new Date(existingEvent.start.dateTime)) / 60000\<close>:
  a number of minutes, NaN (\<open>None\<close>) when one of the two dates is invalid. The quotient is
  kept exact.
\<close>

definition merged_duration :: "js_runtime \<Rightarrow> update_args \<Rightarrow> get_response \<Rightarrow> js_error + rat option" where
  "merged_duration rt args existingEvent =
     (if truthy_num (ue_newDuration args) then Inr (map_option of_int (ue_newDuration args))
      else (case r_end existingEvent of
              None \<Rightarrow> Inl TypeError
            | Some en \<Rightarrow>
                (case r_start existingEvent of
                   None \<Rightarrow> Inl TypeError
                 | Some st \<Rightarrow>
                     (case (new_Date_opt rt (dateTime en), new_Date_opt rt (dateTime st)) of
                        (Some e, Some b) \<Rightarrow> Inr (Some (of_int (e - b) / 60000))
                      | _ \<Rightarrow> Inr None))))"

text \<open>
  The block under \<^verbatim>\<open>if (newDate || newTime)\<close>: it assigns the recomputed instants to
  \<^verbatim>\<open>existingEvent.start.dateTime\<close> and \<^verbatim>\<open>existingEvent.end.dateTime\<close>, that is to the
  \<^verbatim>\<open>.start\<close> and \<^verbatim>\<open>.end\<close> of the fetched object, and leaves its \<^verbatim>\<open>.data\<close> alone. In an
  assignment the right-hand side is computed before the property is set.
\<close>

definition apply_new_date_time :: "js_runtime \<Rightarrow> update_args \<Rightarrow> get_response \<Rightarrow> js_error + get_response" where
  "apply_new_date_time rt args existingEvent =
     (case merged_date args existingEvent of
        Inl e \<Rightarrow> Inl e
      | Inr d \<Rightarrow>
     (case merged_time args existingEvent of
        Inl e \<Rightarrow> Inl e
      | Inr t \<Rightarrow>
     (case merged_duration rt args existingEvent of
        Inl e \<Rightarrow> Inl e
      | Inr duration \<Rightarrow>
     (let startDate = new_Date rt (tmpl d @ ''T'' @ tmpl t @ '':00'') in
      case toISOString startDate of
        Inl e \<Rightarrow> Inl e
      | Inr startISO \<Rightarrow>
     (case r_start existingEvent of
        None \<Rightarrow> Inl TypeError
      | Some st \<Rightarrow>
     (case toISOString (new_Date_num
             (case (startDate, duration) of
                (Some b, Some m) \<Rightarrow> Some (of_int b + m * 60000)
              | _ \<Rightarrow> None)) of
        Inl e \<Rightarrow> Inl e
      | Inr endISO \<Rightarrow>
     (case r_end existingEvent of
        None \<Rightarrow> Inl TypeError
      | Some en \<Rightarrow>
          Inr (existingEvent\<lparr>r_start := Some (st\<lparr>dateTime := Some startISO\<rparr>),
                             r_end := Some (en\<lparr>dateTime := Some endISO\<rparr>)\<rparr>))))))))"

definition update_event_body ::
  "js_runtime \<Rightarrow> env \<Rightarrow> 's calendar_api \<Rightarrow> update_args body option \<Rightarrow> 's
     \<Rightarrow> (js_error + http_response) \<times> call_log \<times> 's" where
  "update_event_body rt ev calendar req s =
     (case req of
        None \<Rightarrow> (Inl TypeError, [], s)
      | Some (Body a) \<Rightarrow>
          (let args = update_args_of a in
           if \<not> truthy (ue_eventId args)
              \<or> (\<not> truthy (ue_newDate args) \<and> \<not> truthy (ue_newTime args) \<and> \<not> truthy_num (ue_newDuration args))
           then (Inr (json_result update_guidance), [], s)
           else
             (let gp = \<lparr>g_calendarId = CALENDAR_ID ev, g_eventId = tmpl (ue_eventId args)\<rparr> in
              case events_get calendar gp s of
                Inl e \<Rightarrow> (Inl e, [(EventsGet gp, Threw e)], s)
              | Inr fetched \<Rightarrow>
                  (case (if truthy (ue_newDate args) \<or> truthy (ue_newTime args)
                         then apply_new_date_time rt args fetched
                         else Inr fetched) of
                     Inl e \<Rightarrow> (Inl e, [(EventsGet gp, Returned)], s)
                   | Inr existingEvent \<Rightarrow>
                       (let up = \<lparr>u_calendarId = CALENDAR_ID ev, u_eventId = tmpl (ue_eventId args),
                                   u_resource = r_data existingEvent\<rparr>
                        in case events_update calendar up s of
                             (Inl e, s') \<Rightarrow>
                               (Inl e, [(EventsGet gp, Returned), (EventsUpdate up, Threw e)], s')
                           | (Inr updated, s') \<Rightarrow>
                               (Inr \<lparr>status = 200,
                                     result = updated_message (ue_newDate args) (ue_newTime args),
                                     eventId = event_id updated,
                                     eventLink = None\<rparr>,
                                [(EventsGet gp, Returned), (EventsUpdate up, Returned)], s'))))))"

definition update_event ::
  "js_runtime \<Rightarrow> env \<Rightarrow> 's calendar_api option \<Rightarrow> update_args body option \<Rightarrow> 's \<Rightarrow> 's outcome" where
  "update_event rt ev calendar req s =
     requireCalendar calendar
       (\<lambda>c s. try_catch update_apology (update_event_body rt ev c req s)) s"

subsection \<open>POST /cancel-event\<close>

definition cancel_guidance :: string where
  "cancel_guidance = ''To cancel an appointment, I need the event ID. Which appointment would you like to cancel?''"

definition cancel_apology :: string where
  "cancel_apology = ''I couldn't cancel the appointment. Please verify the appointment details.''"

definition cancelled_message :: string where
  "cancelled_message = ''I've successfully cancelled your appointment. Is there anything else I can help you with?''"

definition cancel_event_body ::
  "env \<Rightarrow> 's calendar_api \<Rightarrow> cancel_args body option \<Rightarrow> 's
     \<Rightarrow> (js_error + http_response) \<times> call_log \<times> 's" where
  "cancel_event_body ev calendar req s =
     (case req of
        None \<Rightarrow> (Inl TypeError, [], s)
      | Some (Body a) \<Rightarrow>
          (let args = cancel_args_of a in
           if \<not> truthy (xe_eventId args)
           then (Inr (json_result cancel_guidance), [], s)
           else
             (let dp = \<lparr>d_calendarId = CALENDAR_ID ev, d_eventId = tmpl (xe_eventId args)\<rparr> in
              case events_delete calendar dp s of
                (Inl e, s') \<Rightarrow> (Inl e, [(EventsDelete dp, Threw e)], s')
              | (Inr u, s') \<Rightarrow>
                  (Inr (json_result cancelled_message), [(EventsDelete dp, Returned)], s'))))"

definition cancel_event ::
  "env \<Rightarrow> 's calendar_api option \<Rightarrow> cancel_args body option \<Rightarrow> 's \<Rightarrow> 's outcome" where
  "cancel_event ev calendar req s =
     requireCalendar calendar
       (\<lambda>c s. try_catch cancel_apology (cancel_event_body ev c req s)) s"

section \<open>The handlers of server.js\<close>

text \<open>
  \<^verbatim>\<open>server.js\<close> keeps no calendar handle. At start-up it either records \<^verbatim>\<open>authError\<close> or
  holds \<^verbatim>\<open>auth\<close>; each request then awaits \<^verbatim>\<open>auth.getClient()\<close>, which resolves to a
  client for a new handle or throws. It has two operation endpoints and validates no
  field.
\<close>

datatype 's auth_state =
    AuthError string
  | Auth "js_error + 's calendar_api"

definition not_configured_message :: string where
  "not_configured_message = ''Service is not properly configured. Please check server logs.''"

definition server_availability_apology :: string where
  "server_availability_apology = ''I'm having trouble checking the calendar. Please try again.''"

definition server_free_message :: "string \<Rightarrow> string \<Rightarrow> string \<Rightarrow> string" where
  "server_free_message d st en =
     ''The calendar is free on '' @ d @ '' between '' @ st @ '' and '' @ en @ ''.''"

definition server_busy_message :: "nat \<Rightarrow> string \<Rightarrow> string \<Rightarrow> string \<Rightarrow> string" where
  "server_busy_message n d st en =
     ''There are '' @ show_nat n @ '' appointments on '' @ d @ '' between '' @ st @ '' and '' @ en @ ''.''"

definition server_check_availability_body ::
  "js_runtime \<Rightarrow> (js_error + 's calendar_api) \<Rightarrow> avail_args body option \<Rightarrow> 's
     \<Rightarrow> (js_error + http_response) \<times> call_log \<times> 's" where
  "server_check_availability_body rt getClient req s =
     (case req of
        None \<Rightarrow> (Inl TypeError, [], s)
      | Some (Body None) \<Rightarrow> (Inl TypeError, [], s)
      | Some (Body (Some args)) \<Rightarrow>
          (case getClient of
             Inl e \<Rightarrow> (Inl e, [], s)
           | Inr calendar \<Rightarrow>
          (case toISOString (new_Date rt (tmpl (ca_date args) @ ''T'' @ tmpl (ca_startTime args) @ '':00'')) of
             Inl e \<Rightarrow> (Inl e, [], s)
           | Inr timeMin \<Rightarrow>
          (case toISOString (new_Date rt (tmpl (ca_date args) @ ''T'' @ tmpl (ca_endTime args) @ '':00'')) of
             Inl e \<Rightarrow> (Inl e, [], s)
           | Inr timeMax \<Rightarrow>
              (let p = \<lparr>l_calendarId = ''primary'', l_timeMin = timeMin, l_timeMax = timeMax,
                         l_singleEvents = True, l_orderBy = Some ''startTime'', l_timeZone = None\<rparr>
               in case events_list calendar p s of
                    Inl e \<Rightarrow> (Inl e, [(EventsList p, Threw e)], s)
                  | Inr items \<Rightarrow>
                      (let events = (case items of None \<Rightarrow> [] | Some xs \<Rightarrow> xs) in
                       if length events = 0
                       then (Inr (json_result (server_free_message (tmpl (ca_date args))
                                (tmpl (ca_startTime args)) (tmpl (ca_endTime args)))),
                             [(EventsList p, Returned)], s)
                       else (Inr (json_result (server_busy_message (length events) (tmpl (ca_date args))
                                (tmpl (ca_startTime args)) (tmpl (ca_endTime args)))),
                             [(EventsList p, Returned)], s)))))))"

definition server_check_availability ::
  "js_runtime \<Rightarrow> 's auth_state \<Rightarrow> avail_args body option \<Rightarrow> 's \<Rightarrow> 's outcome" where
  "server_check_availability rt auth req s =
     (case auth of
        AuthError msg \<Rightarrow>
          \<lparr>response = \<lparr>status = 503, result = not_configured_message, eventId = None, eventLink = None\<rparr>,
           calls = [], final = s\<rparr>
      | Auth getClient \<Rightarrow>
          try_catch server_availability_apology (server_check_availability_body rt getClient req s))"

definition server_created_message :: "string \<Rightarrow> string \<Rightarrow> string \<Rightarrow> int \<Rightarrow> string" where
  "server_created_message title d st duration =
     ''I've scheduled '' @ dq @ title @ dq @ '' on '' @ d @ '' at '' @ st
       @ '' for '' @ show_int duration @ '' minutes.''"

definition server_new_event :: "create_args \<Rightarrow> string \<Rightarrow> string \<Rightarrow> event" where
  "server_new_event args startISO endISO =
     \<lparr>event_id = None,
      summary = ce_title args,
      description = None,
      start = Some \<lparr>dateTime = Some startISO, date = None, timeZone = Some ''America/Chicago''\<rparr>,
      end' = Some \<lparr>dateTime = Some endISO, date = None, timeZone = Some ''America/Chicago''\<rparr>,
      event_reminders = None,
      attendees = None,
      htmlLink = None\<rparr>"

definition server_create_event_body ::
  "js_runtime \<Rightarrow> (js_error + 's calendar_api) \<Rightarrow> create_args body option \<Rightarrow> 's
     \<Rightarrow> (js_error + http_response) \<times> call_log \<times> 's" where
  "server_create_event_body rt getClient req s =
     (case req of
        None \<Rightarrow> (Inl TypeError, [], s)
      | Some (Body None) \<Rightarrow> (Inl TypeError, [], s)
      | Some (Body (Some args)) \<Rightarrow>
          (let duration = (case ce_duration args of None \<Rightarrow> 60 | Some d \<Rightarrow> d) in
           case getClient of
             Inl e \<Rightarrow> (Inl e, [], s)
           | Inr calendar \<Rightarrow>
          (let startDateTime = new_Date rt (tmpl (ce_date args) @ ''T'' @ tmpl (ce_startTime args) @ '':00'');
               endDateTime = plus_minutes startDateTime duration
           in
           case toISOString startDateTime of
             Inl e \<Rightarrow> (Inl e, [], s)
           | Inr startISO \<Rightarrow>
          (case toISOString endDateTime of
             Inl e \<Rightarrow> (Inl e, [], s)
           | Inr endISO \<Rightarrow>
              (let ip = \<lparr>i_calendarId = ''primary'',
                          i_resource = server_new_event args startISO endISO,
                          i_sendUpdates = None\<rparr>
               in case events_insert calendar ip s of
                    (Inl e, s') \<Rightarrow> (Inl e, [(EventsInsert ip, Threw e)], s')
                  | (Inr created, s') \<Rightarrow>
                      (Inr \<lparr>status = 200,
                            result = server_created_message (tmpl (ce_title args)) (tmpl (ce_date args))
                                       (tmpl (ce_startTime args)) duration,
                            eventId = event_id created,
                            eventLink = None\<rparr>,
                       [(EventsInsert ip, Returned)], s'))))))"

definition server_create_event ::
  "js_runtime \<Rightarrow> 's auth_state \<Rightarrow> create_args body option \<Rightarrow> 's \<Rightarrow> 's outcome" where
  "server_create_event rt auth req s =
     (case auth of
        AuthError msg \<Rightarrow>
          \<lparr>response = \<lparr>status = 503, result = not_configured_message, eventId = None, eventLink = None\<rparr>,
           calls = [], final = s\<rparr>
      | Auth getClient \<Rightarrow>
          try_catch create_apology (server_create_event_body rt getClient req s))"

section \<open>A sample runtime and a scripted provider\<close>

text \<open>
  Concrete instances for evaluating the handlers: a process whose local zone is UTC, a
  process whose local zone is five hours behind UTC (Chicago in summer), and a provider
  that answers every call from a script and counts the writes it has received.
\<close>

definition clock12 :: "int \<Rightarrow> string" where
  "clock12 t =
     (let h = t mod 86400000 div 3600000;
          mi = t mod 3600000 div 60000;
          h12 = (if h mod 12 = 0 then 12 else h mod 12)
      in show_nat (nat h12) @ '':'' @ pad 2 (nat mi) @ (if h < 12 then '' AM'' else '' PM''))"

definition sample_toLocaleString :: "string \<Rightarrow> int option \<Rightarrow> js_error + string" where
  "sample_toLocaleString tz tv =
     (if tz = ''America/Chicago''
      then Inr (case tv of None \<Rightarrow> ''Invalid Date'' | Some t \<Rightarrow> clock12 (t - 18000000))
      else if tz = ''UTC''
      then Inr (case tv of None \<Rightarrow> ''Invalid Date'' | Some t \<Rightarrow> clock12 t)
      else Inl RangeError)"

definition utc_runtime :: js_runtime where
  "utc_runtime =
     \<lparr>localTZA = (\<lambda>t. 0),
      parse_other = (\<lambda>s. None),
      toLocaleString = sample_toLocaleString,
      toLocaleTimeString = (\<lambda>tv. case tv of None \<Rightarrow> ''Invalid Date'' | Some t \<Rightarrow> clock12 t)\<rparr>"

definition chicago_runtime :: js_runtime where
  "chicago_runtime =
     \<lparr>localTZA = (\<lambda>t. - 18000000),
      parse_other = (\<lambda>s. None),
      toLocaleString = sample_toLocaleString,
      toLocaleTimeString = (\<lambda>tv. case tv of None \<Rightarrow> ''Invalid Date'' | Some t \<Rightarrow> clock12 (t - 18000000))\<rparr>"

definition scripted_provider ::
  "(js_error + event list option) \<Rightarrow> (js_error + get_response) \<Rightarrow> (js_error + event) \<Rightarrow> nat calendar_api" where
  "scripted_provider listed fetched written =
     \<lparr>events_list = (\<lambda>p s. listed),
      events_get = (\<lambda>p s. fetched),
      events_insert = (\<lambda>p s. (written, Suc s)),
      events_update = (\<lambda>p s. (written, Suc s)),
      events_delete = (\<lambda>p s. (case written of Inl e \<Rightarrow> Inl e | Inr x \<Rightarrow> Inr (), Suc s))\<rparr>"

definition default_env :: env where
  "default_env = \<lparr>TIMEZONE = None, GOOGLE_CALENDAR_ID = None\<rparr>"

definition stored_event :: "string \<Rightarrow> string \<Rightarrow> string \<Rightarrow> string \<Rightarrow> event" where
  "stored_event eid title startISO endISO =
     \<lparr>event_id = Some eid,
      summary = Some title,
      description = None,
      start = Some \<lparr>dateTime = Some startISO, date = None, timeZone = Some ''America/Chicago''\<rparr>,
      end' = Some \<lparr>dateTime = Some endISO, date = None, timeZone = Some ''America/Chicago''\<rparr>,
      event_reminders = None,
      attendees = None,
      htmlLink = Some (''https://calendar.example/'' @ eid)\<rparr>"

text \<open>The requests of the interface's examples, and an event as the provider stores it.\<close>

definition availability_args :: avail_args where
  "availability_args =
     \<lparr>ca_date = Some ''2024-06-01'', ca_startTime = Some ''09:00'', ca_endTime = Some ''10:00''\<rparr>"

definition availability_request :: "avail_args body option" where
  "availability_request = Some (Body (Some availability_args))"

definition dentist_args :: create_args where
  "dentist_args =
     \<lparr>ce_title = Some ''Dentist'', ce_date = Some ''2024-06-01'', ce_startTime = Some ''09:00'',
      ce_duration = None, ce_description = None, ce_attendeeEmail = None\<rparr>"

definition dentist_event :: event where
  "dentist_event = stored_event ''abc123'' ''Dentist'' ''2024-06-01T14:00:00.000Z'' ''2024-06-01T15:00:00.000Z''"


text \<open>The stored appointment as \<^verbatim>\<open>calendar.events.get\<close> answers it: the event under
  \<^verbatim>\<open>.data\<close>, no \<^verbatim>\<open>.start\<close> or \<^verbatim>\<open>.end\<close> on the response itself.\<close>

definition fetched_dentist :: get_response where
  "fetched_dentist = \<lparr>r_data = Some dentist_event, r_start = None, r_end = None\<rparr>"

text \<open>The same appointment in an object that carries \<^verbatim>\<open>.start\<close> and \<^verbatim>\<open>.end\<close> beside
  \<^verbatim>\<open>.data\<close>.\<close>

definition fetched_dentist_flat :: get_response where
  "fetched_dentist_flat =
     \<lparr>r_data = Some dentist_event, r_start = start dentist_event, r_end = end' dentist_event\<rparr>"

definition chicago_env :: env where
  "chicago_env = \<lparr>TIMEZONE = Some ''America/Chicago'', GOOGLE_CALENDAR_ID = None\<rparr>"

definition new_time_only :: update_args where
  "new_time_only =
     \<lparr>ue_eventId = Some ''abc123'', ue_newDate = None, ue_newTime = Some ''11:00'',
      ue_newDuration = None\<rparr>"

definition new_duration_only :: update_args where
  "new_duration_only =
     \<lparr>ue_eventId = Some ''abc123'', ue_newDate = None, ue_newTime = None,
      ue_newDuration = Some 30\<rparr>"

section \<open>Properties\<close>

subsection \<open>Auxiliary facts\<close>

lemma check_availability_body_log:
  assumes "check_availability_body rt ev c req s = (r, cs, s')"
  shows "s' = s \<and> (cs = [] \<or> (\<exists>p x. cs = [(EventsList p, x)]))"
  using assms
  by (auto simp: check_availability_body_def avail_args_of_def Let_def
           split: option.splits body.splits sum.splits if_splits)

lemma server_check_availability_body_log:
  assumes "server_check_availability_body rt g req s = (r, cs, s')"
  shows "s' = s \<and> (cs = [] \<or> (\<exists>p x. cs = [(EventsList p, x)]))"
  using assms
  by (auto simp: server_check_availability_body_def Let_def
           split: option.splits body.splits sum.splits if_splits)

lemma try_catch_calls [simp]: "calls (try_catch a (r, cs, s')) = cs"
  by (cases r) (simp_all add: try_catch_def)

lemma try_catch_final [simp]: "final (try_catch a (r, cs, s')) = s'"
  by (cases r) (simp_all add: try_catch_def)

lemma chicago_0900: "new_Date chicago_runtime ''2024-06-01T09:00:00'' = Some 1717250400000"
  by code_simp

lemma chicago_1000: "new_Date chicago_runtime ''2024-06-01T10:00:00'' = Some 1717254000000"
  by code_simp

lemma iso_1400Z: "toISOString (Some 1717250400000) = Inr ''2024-06-01T14:00:00.000Z''"
  by code_simp

lemma iso_1500Z: "toISOString (Some 1717254000000) = Inr ''2024-06-01T15:00:00.000Z''"
  by code_simp








lemma toISOString_Some: "\<exists>x. toISOString (Some t) = Inr x"
  by (simp add: toISOString_def Let_def split: prod.splits)

lemma plus_minutes_Some:
  "\<bar>t + d * 60000\<bar> \<le> 8640000000000000 \<Longrightarrow> plus_minutes (Some t) d = Some (t + d * 60000)"
  by (simp add: plus_minutes_def time_clip_def)

lemma apply_new_date_time_data:
  "apply_new_date_time rt args e = Inr e' \<Longrightarrow> r_data e' = r_data e"
  by (auto simp: apply_new_date_time_def Let_def split: sum.splits option.splits)

lemma update_event_body_resource:
  assumes "update_event_body rt ev c req s = (r, cs, s')" and "(EventsUpdate up, x) \<in> set cs"
  shows "\<exists>gp fetched. events_get c gp s = Inr fetched \<and> u_resource up = r_data fetched"
proof -
  from assms show ?thesis
    by (auto simp: update_event_body_def update_args_of_def Let_def
             split: option.splits body.splits sum.splits if_splits prod.splits)
       (metis apply_new_date_time_data)+
qed

subsection \<open>An availability check only reads\<close>

text \<open>
  Claim C10. Whatever the request, the state of the process and the provider's answers,
  POST /check-availability issues at most one provider call, and that call is an events
  list; it issues no insert, update or delete, and the provider's state after the request
  is its state before. This holds for the handler of \<^verbatim>\<open>index.js\<close> and for the one of
  \<^verbatim>\<open>server.js\<close>.
\<close>

theorem check_availability_read_only:
  "final (check_availability rt ev calendar req s) = s
   \<and> (calls (check_availability rt ev calendar req s) = []
        \<or> (\<exists>p x. calls (check_availability rt ev calendar req s) = [(EventsList p, x)]))
   \<and> final (server_check_availability rt auth req s) = s
   \<and> (calls (server_check_availability rt auth req s) = []
        \<or> (\<exists>p x. calls (server_check_availability rt auth req s) = [(EventsList p, x)]))"
proof -
  have index_js: "final (check_availability rt ev calendar req s) = s
     \<and> (calls (check_availability rt ev calendar req s) = []
        \<or> (\<exists>p x. calls (check_availability rt ev calendar req s) = [(EventsList p, x)]))"
  proof (cases calendar)
    case None
    then show ?thesis by (simp add: check_availability_def requireCalendar_def)
  next
    case (Some c)
    obtain r cs s' where b: "check_availability_body rt ev c req s = (r, cs, s')"
      by (cases "check_availability_body rt ev c req s") auto
    from check_availability_body_log [OF b] Some b show ?thesis
      by (auto simp: check_availability_def requireCalendar_def)
  qed
  have server_js: "final (server_check_availability rt auth req s) = s
     \<and> (calls (server_check_availability rt auth req s) = []
        \<or> (\<exists>p x. calls (server_check_availability rt auth req s) = [(EventsList p, x)]))"
  proof (cases auth)
    case (AuthError m)
    then show ?thesis by (simp add: server_check_availability_def)
  next
    case (Auth g)
    obtain r cs s' where b: "server_check_availability_body rt g req s = (r, cs, s')"
      by (cases "server_check_availability_body rt g req s") auto
    from server_check_availability_body_log [OF b] Auth b show ?thesis
      by (auto simp: server_check_availability_def)
  qed
  from index_js server_js show ?thesis by blast
qed

text \<open>The same at a busy calendar: one list call for 09:00 to 10:00 local time, no write.\<close>

theorem check_availability_read_only_witness:
  "final (check_availability chicago_runtime default_env
       (Some (scripted_provider
          (Inr (Some [stored_event ''e1'' ''Dentist'' ''2024-06-01T14:00:00.000Z'' ''2024-06-01T15:00:00.000Z'']))
          (Inl TypeError) (Inl TypeError)))
       (Some (Body (Some \<lparr>ca_date = Some ''2024-06-01'', ca_startTime = Some ''09:00'',
                           ca_endTime = Some ''10:00''\<rparr>))) 0) = 0
   \<and> length (calls (check_availability chicago_runtime default_env
       (Some (scripted_provider
          (Inr (Some [stored_event ''e1'' ''Dentist'' ''2024-06-01T14:00:00.000Z'' ''2024-06-01T15:00:00.000Z'']))
          (Inl TypeError) (Inl TypeError)))
       (Some (Body (Some \<lparr>ca_date = Some ''2024-06-01'', ca_startTime = Some ''09:00'',
                           ca_endTime = Some ''10:00''\<rparr>))) 0)) \<le> 1"
  using check_availability_read_only
    [of chicago_runtime default_env
        "Some (scripted_provider
          (Inr (Some [stored_event ''e1'' ''Dentist'' ''2024-06-01T14:00:00.000Z'' ''2024-06-01T15:00:00.000Z'']))
          (Inl TypeError) (Inl TypeError))"
        "Some (Body (Some \<lparr>ca_date = Some ''2024-06-01'', ca_startTime = Some ''09:00'',
                           ca_endTime = Some ''10:00''\<rparr>))"
        0 "AuthError []"]
  by auto

subsection \<open>Requests before the calendar is ready\<close>

text \<open>
  Claim C9, as amended. In \<^verbatim>\<open>index.js\<close> a POST to any of the four operation endpoints
  while the calendar handle is null is answered by \<open>requireCalendar\<close>: HTTP 200 with
  the result "The calendar service is still initializing. Please try again in a moment.",
  and no provider call. In \<^verbatim>\<open>server.js\<close>, where the failure of initialisation is
  recorded in \<^verbatim>\<open>authError\<close>, both operation endpoints answer HTTP 503 with the result
  "Service is not properly configured. Please check server logs.", and no provider call.
\<close>

theorem not_ready_responses:
  "check_availability rt ev None areq s
     = \<lparr>response = json_result initializing_message, calls = [], final = s\<rparr>
   \<and> create_event rt ev None creq s
     = \<lparr>response = json_result initializing_message, calls = [], final = s\<rparr>
   \<and> update_event rt ev None ureq s
     = \<lparr>response = json_result initializing_message, calls = [], final = s\<rparr>
   \<and> cancel_event ev None xreq s
     = \<lparr>response = json_result initializing_message, calls = [], final = s\<rparr>
   \<and> status (json_result initializing_message) = 200
   \<and> server_check_availability rt (AuthError msg) areq s
     = \<lparr>response = \<lparr>status = 503, result = not_configured_message, eventId = None, eventLink = None\<rparr>,
        calls = [], final = s\<rparr>
   \<and> server_create_event rt (AuthError msg) creq s
     = \<lparr>response = \<lparr>status = 503, result = not_configured_message, eventId = None, eventLink = None\<rparr>,
        calls = [], final = s\<rparr>"
  by (simp add: check_availability_def create_event_def update_event_def cancel_event_def
        requireCalendar_def json_result_def server_check_availability_def server_create_event_def)

text \<open>
  Claim C9 as stated fails on \<^verbatim>\<open>server.js\<close>: with \<^verbatim>\<open>authError\<close> set, a well-formed
  availability request is answered with status 503.
\<close>

theorem not_ready_server_counterexample:
  "status (response (server_check_availability utc_runtime
      (AuthError ''GOOGLE_SERVICE_ACCOUNT_KEY environment variable is missing'')
      (Some (Body (Some \<lparr>ca_date = Some ''2024-06-01'', ca_startTime = Some ''09:00'',
                          ca_endTime = Some ''10:00''\<rparr>))) (0::nat))) = 503"
  by (simp add: server_check_availability_def)

subsection \<open>Provider failures\<close>



subsection \<open>Requests that lack a required field\<close>




subsection \<open>The conflict rule of event creation\<close>

text \<open>
  Claim C1, as amended. In \<^verbatim>\<open>index.js\<close>, with the calendar handle initialised, a
  create-event request with a title, a date and a startTime whose start and end instants
  are valid dates first lists the provider's events with \<^verbatim>\<open>timeMin\<close> the start and
  \<^verbatim>\<open>timeMax\<close> the start plus the duration (60 minutes when none is given). If the list
  holds an event, the response is the conflict message and the list is the only provider
  call; an insert is issued only after the list returned no event.
\<close>

theorem create_event_conflict_rule:
  assumes "truthy (ce_title args)" and "truthy (ce_date args)" and "truthy (ce_startTime args)"
    and "new_Date rt (tmpl (ce_date args) @ ''T'' @ tmpl (ce_startTime args) @ '':00'') = Some t0"
    and "duration = (case ce_duration args of None \<Rightarrow> 60 | Some d \<Rightarrow> d)"
    and "\<bar>t0 + duration * 60000\<bar> \<le> 8640000000000000"
    and "toISOString (Some t0) = Inr startISO"
    and "toISOString (Some (t0 + duration * 60000)) = Inr endISO"
    and "lp = \<lparr>l_calendarId = CALENDAR_ID ev, l_timeMin = startISO, l_timeMax = endISO,
                l_singleEvents = True, l_orderBy = None, l_timeZone = None\<rparr>"
    and "out = create_event rt ev (Some c) (Some (Body (Some args))) s"
  shows "(\<exists>x rest. calls out = (EventsList lp, x) # rest)
     \<and> (\<forall>e es. events_list c lp s = Inr (Some (e # es)) \<longrightarrow>
           out = \<lparr>response = json_result conflict_message, calls = [(EventsList lp, Returned)], final = s\<rparr>)
     \<and> (\<forall>ip x. (EventsInsert ip, x) \<in> set (calls out) \<longrightarrow>
           events_list c lp s = Inr None \<or> events_list c lp s = Inr (Some []))"
proof -
  have pm: "plus_minutes (Some t0) duration = Some (t0 + duration * 60000)"
    using assms(6) by (rule plus_minutes_Some)
  show ?thesis
    unfolding assms(10) assms(9)
    using assms(1-4,7,8) pm unfolding assms(5)
    by (auto simp: create_event_def requireCalendar_def try_catch_def create_event_body_def
          create_args_of_def Let_def json_result_def
          split: sum.splits option.splits prod.splits)
qed

text \<open>The dentist appointment against a calendar that already holds one at that time.\<close>

theorem create_event_conflict_rule_witness:
  "create_event chicago_runtime default_env
       (Some (scripted_provider (Inr (Some [dentist_event])) (Inl TypeError) (Inr dentist_event)))
       (Some (Body (Some dentist_args))) 0
     = \<lparr>response = json_result conflict_message,
        calls = [(EventsList \<lparr>l_calendarId = ''colinyuan3333@gmail.com'',
                              l_timeMin = ''2024-06-01T14:00:00.000Z'',
                              l_timeMax = ''2024-06-01T15:00:00.000Z'',
                              l_singleEvents = True, l_orderBy = None, l_timeZone = None\<rparr>,
                  Returned)],
        final = 0\<rparr>"
proof -
  have h1: "truthy (ce_title dentist_args)" and h2: "truthy (ce_date dentist_args)"
    and h3: "truthy (ce_startTime dentist_args)"
    by (simp_all add: truthy_def dentist_args_def)
  have h4: "new_Date chicago_runtime
      (tmpl (ce_date dentist_args) @ ''T'' @ tmpl (ce_startTime dentist_args) @ '':00'')
      = Some 1717250400000"
    by (simp add: dentist_args_def tmpl_def chicago_0900)
  have h5: "(60::int) = (case ce_duration dentist_args of None \<Rightarrow> 60 | Some d \<Rightarrow> d)"
    by (simp add: dentist_args_def)
  have h6: "\<bar>1717250400000 + 60 * 60000\<bar> \<le> (8640000000000000::int)"
    by simp
  have h8: "toISOString (Some (1717250400000 + 60 * 60000)) = Inr ''2024-06-01T15:00:00.000Z''"
    using iso_1500Z by simp
  have h9: "\<lparr>l_calendarId = ''colinyuan3333@gmail.com'', l_timeMin = ''2024-06-01T14:00:00.000Z'',
       l_timeMax = ''2024-06-01T15:00:00.000Z'', l_singleEvents = True, l_orderBy = None,
       l_timeZone = None\<rparr>
     = \<lparr>l_calendarId = CALENDAR_ID default_env, l_timeMin = ''2024-06-01T14:00:00.000Z'',
        l_timeMax = ''2024-06-01T15:00:00.000Z'', l_singleEvents = True, l_orderBy = None,
        l_timeZone = None\<rparr>"
    by (simp add: CALENDAR_ID_def default_env_def or_default_def)
  from create_event_conflict_rule [OF h1 h2 h3 h4 h5 h6 iso_1400Z h8 h9 refl,
      where c = "scripted_provider (Inr (Some [dentist_event])) (Inl TypeError) (Inr dentist_event)"
        and s = 0]
  show ?thesis
    by (simp add: scripted_provider_def)
qed

text \<open>
  Claim C1 as stated fails on \<^verbatim>\<open>server.js\<close>, whose create-event has no conflict check:
  against a provider that lists an event in the window, the only call is the insert.
\<close>

theorem server_create_event_conflict_counterexample:
  "events_list (scripted_provider (Inr (Some [dentist_event])) (Inl TypeError) (Inr dentist_event))
       \<lparr>l_calendarId = ''primary'', l_timeMin = ''2024-06-01T14:00:00.000Z'',
        l_timeMax = ''2024-06-01T15:00:00.000Z'', l_singleEvents = True, l_orderBy = None,
        l_timeZone = None\<rparr> 0
     = Inr (Some [dentist_event])
   \<and> calls (server_create_event chicago_runtime
       (Auth (Inr (scripted_provider (Inr (Some [dentist_event])) (Inl TypeError) (Inr dentist_event))))
       (Some (Body (Some dentist_args))) 0)
     = [(EventsInsert \<lparr>i_calendarId = ''primary'',
                       i_resource = server_new_event dentist_args
                                      ''2024-06-01T14:00:00.000Z'' ''2024-06-01T15:00:00.000Z'',
                       i_sendUpdates = None\<rparr>, Returned)]"
  by code_simp

subsection \<open>The outcome of an availability check\<close>



subsection \<open>The default duration of a new event\<close>

text \<open>
  Claim C7. For a create-event request of \<^verbatim>\<open>index.js\<close> with a title, a date and a
  startTime and no duration, whose start is a valid date, against a provider that lists
  no event in the window and accepts the insert: the window and the inserted event run
  from the start instant to the start instant plus 60 times 60000 milliseconds, the
  confirmation speaks of 60 minutes, and the response carries the identifier (and link)
  of the event the provider returned.
\<close>

theorem create_event_default_duration:
  assumes "truthy (ce_title args)" and "truthy (ce_date args)" and "truthy (ce_startTime args)"
    and "ce_duration args = None"
    and "new_Date rt (tmpl (ce_date args) @ ''T'' @ tmpl (ce_startTime args) @ '':00'') = Some t0"
    and "\<bar>t0 + 60 * 60000\<bar> \<le> 8640000000000000"
    and "toISOString (Some t0) = Inr startISO"
    and "toISOString (Some (t0 + 60 * 60000)) = Inr endISO"
    and "lp = \<lparr>l_calendarId = CALENDAR_ID ev, l_timeMin = startISO, l_timeMax = endISO,
                l_singleEvents = True, l_orderBy = None, l_timeZone = None\<rparr>"
    and "events_list c lp s = Inr None \<or> events_list c lp s = Inr (Some [])"
    and "ip = \<lparr>i_calendarId = CALENDAR_ID ev, i_resource = new_event ev args startISO endISO,
                i_sendUpdates = Some (if truthy (ce_attendeeEmail args) then ''all'' else ''none'')\<rparr>"
    and "events_insert c ip s = (Inr created, s')"
    and "out = create_event rt ev (Some c) (Some (Body (Some args))) s"
  shows "calls out = [(EventsList lp, Returned), (EventsInsert ip, Returned)]
     \<and> start (i_resource ip)
          = Some \<lparr>dateTime = Some startISO, date = None, timeZone = Some (configured_timezone ev)\<rparr>
     \<and> end' (i_resource ip)
          = Some \<lparr>dateTime = Some endISO, date = None, timeZone = Some (configured_timezone ev)\<rparr>
     \<and> response out
          = \<lparr>status = 200,
             result = created_message (tmpl (ce_title args)) (tmpl (ce_date args))
                        (toLocaleTimeString rt (Some t0)) 60 (ce_attendeeEmail args),
             eventId = event_id created, eventLink = htmlLink created\<rparr>
     \<and> final out = s'"
proof -
  have pm: "plus_minutes (Some t0) 60 = Some (t0 + 60 * 60000)"
    using assms(6) by (rule plus_minutes_Some)
  show ?thesis
    unfolding assms(13)
    using assms(1-5,7,8,10,12) pm unfolding assms(11) assms(9)
    by (auto simp: create_event_def requireCalendar_def try_catch_def create_event_body_def
          create_args_of_def Let_def new_event_def)
qed

text \<open>
  The interface's example: "Dentist" on 2024-06-01 at 09:00, no duration, in a process on
  Chicago time. The insert runs from 14:00 to 15:00 UTC, which is 09:00 to 10:00 there,
  and the response carries the identifier the provider gave.
\<close>

theorem create_event_default_duration_witness:
  "calls (create_event chicago_runtime default_env
       (Some (scripted_provider (Inr (Some [])) (Inl TypeError) (Inr dentist_event)))
       (Some (Body (Some dentist_args))) 0)
     = [(EventsList \<lparr>l_calendarId = ''colinyuan3333@gmail.com'',
                       l_timeMin = ''2024-06-01T14:00:00.000Z'',
                       l_timeMax = ''2024-06-01T15:00:00.000Z'',
                       l_singleEvents = True, l_orderBy = None, l_timeZone = None\<rparr>, Returned),
        (EventsInsert \<lparr>i_calendarId = ''colinyuan3333@gmail.com'',
                         i_resource = new_event default_env dentist_args
                                        ''2024-06-01T14:00:00.000Z'' ''2024-06-01T15:00:00.000Z'',
                         i_sendUpdates = Some ''none''\<rparr>, Returned)]
   \<and> eventId (response (create_event chicago_runtime default_env
       (Some (scripted_provider (Inr (Some [])) (Inl TypeError) (Inr dentist_event)))
       (Some (Body (Some dentist_args))) 0)) = Some ''abc123''
   \<and> result (response (create_event chicago_runtime default_env
       (Some (scripted_provider (Inr (Some [])) (Inl TypeError) (Inr dentist_event)))
       (Some (Body (Some dentist_args))) 0))
     = created_message ''Dentist'' ''2024-06-01'' ''9:00 AM'' 60 None"
proof -
  have h1: "truthy (ce_title dentist_args)" and h2: "truthy (ce_date dentist_args)"
    and h3: "truthy (ce_startTime dentist_args)"
    by (simp_all add: truthy_def dentist_args_def)
  have h4: "ce_duration dentist_args = None"
    by (simp add: dentist_args_def)
  have h5: "new_Date chicago_runtime
      (tmpl (ce_date dentist_args) @ ''T'' @ tmpl (ce_startTime dentist_args) @ '':00'')
      = Some 1717250400000"
    by (simp add: dentist_args_def tmpl_def chicago_0900)
  have h6: "\<bar>1717250400000 + 60 * 60000\<bar> \<le> (8640000000000000::int)"
    by simp
  have h8: "toISOString (Some (1717250400000 + 60 * 60000)) = Inr ''2024-06-01T15:00:00.000Z''"
    using iso_1500Z by simp
  have h10: "events_list (scripted_provider (Inr (Some [])) (Inl TypeError) (Inr dentist_event))
       \<lparr>l_calendarId = CALENDAR_ID default_env, l_timeMin = ''2024-06-01T14:00:00.000Z'',
        l_timeMax = ''2024-06-01T15:00:00.000Z'', l_singleEvents = True, l_orderBy = None,
        l_timeZone = None\<rparr> 0 = Inr None
     \<or> events_list (scripted_provider (Inr (Some [])) (Inl TypeError) (Inr dentist_event))
       \<lparr>l_calendarId = CALENDAR_ID default_env, l_timeMin = ''2024-06-01T14:00:00.000Z'',
        l_timeMax = ''2024-06-01T15:00:00.000Z'', l_singleEvents = True, l_orderBy = None,
        l_timeZone = None\<rparr> 0 = Inr (Some [])"
    by (simp add: scripted_provider_def)
  have h12: "events_insert (scripted_provider (Inr (Some [])) (Inl TypeError) (Inr dentist_event))
       \<lparr>i_calendarId = CALENDAR_ID default_env,
        i_resource = new_event default_env dentist_args
                       ''2024-06-01T14:00:00.000Z'' ''2024-06-01T15:00:00.000Z'',
        i_sendUpdates = Some (if truthy (ce_attendeeEmail dentist_args) then ''all'' else ''none'')\<rparr> 0
     = (Inr dentist_event, Suc 0)"
    by (simp add: scripted_provider_def)
  have cal: "CALENDAR_ID default_env = ''colinyuan3333@gmail.com''"
    by (simp add: CALENDAR_ID_def default_env_def or_default_def)
  have fmt: "toLocaleTimeString chicago_runtime (Some 1717250400000) = ''9:00 AM''"
    by code_simp
  have att: "ce_attendeeEmail dentist_args = None" and ttl: "tmpl (ce_title dentist_args) = ''Dentist''"
    and dt: "tmpl (ce_date dentist_args) = ''2024-06-01''"
    by (simp_all add: dentist_args_def tmpl_def)
  have eid: "event_id dentist_event = Some ''abc123''"
    by (simp add: dentist_event_def stored_event_def)
  from create_event_default_duration [OF h1 h2 h3 h4 h5 h6 iso_1400Z h8 refl h10 refl h12 refl]
  show ?thesis
    by (simp add: cal fmt att ttl dt eid truthy_def)
qed

subsection \<open>The zone of the availability window\<close>

text \<open>
  Claim C4 does not hold of the code. The handler reads \<^verbatim>\<open>TIMEZONE\<close> under the comment
  "Create date times in the user's timezone", but builds the bounds with
  \<^verbatim>\<open>new Date(`${date}T${startTime}:00`)\<close>, which reads the string in the zone of the process.
  With \<^verbatim>\<open>TIMEZONE\<close> set to America/Chicago, a process on UTC asks for 09:00 to 10:00 UTC,
  which is 4:00 to 5:00 in Chicago, and a process on Chicago time asks for 14:00 to 15:00
  UTC: the window follows the process's zone, and the configured zone only travels along
  as the \<^verbatim>\<open>timeZone\<close> parameter of the list call.
\<close>

theorem availability_window_follows_process_zone:
  "calls (check_availability utc_runtime chicago_env
       (Some (scripted_provider (Inr (Some [])) (Inl TypeError) (Inl TypeError)))
       availability_request 0)
     = [(EventsList \<lparr>l_calendarId = ''colinyuan3333@gmail.com'',
                       l_timeMin = ''2024-06-01T09:00:00.000Z'',
                       l_timeMax = ''2024-06-01T10:00:00.000Z'',
                       l_singleEvents = True, l_orderBy = Some ''startTime'',
                       l_timeZone = Some ''America/Chicago''\<rparr>, Returned)]
   \<and> toLocaleString utc_runtime (configured_timezone chicago_env)
         (new_Date utc_runtime ''2024-06-01T09:00:00.000Z'') = Inr ''4:00 AM''
   \<and> calls (check_availability chicago_runtime chicago_env
       (Some (scripted_provider (Inr (Some [])) (Inl TypeError) (Inl TypeError)))
       availability_request 0)
     = [(EventsList \<lparr>l_calendarId = ''colinyuan3333@gmail.com'',
                       l_timeMin = ''2024-06-01T14:00:00.000Z'',
                       l_timeMax = ''2024-06-01T15:00:00.000Z'',
                       l_singleEvents = True, l_orderBy = Some ''startTime'',
                       l_timeZone = Some ''America/Chicago''\<rparr>, Returned)]
   \<and> toLocaleString utc_runtime (configured_timezone chicago_env)
         (new_Date utc_runtime ''2024-06-01T14:00:00.000Z'') = Inr ''9:00 AM''"
  by code_simp

subsection \<open>Updating an event\<close>

text \<open>
  Claim C5 does not hold of the code. With only \<^verbatim>\<open>newTime\<close> given, the handler reads the
  stored date from \<^verbatim>\<open>existingEvent.start.dateTime\<close>; \<^verbatim>\<open>existingEvent\<close> is the response of
  \<^verbatim>\<open>events.get\<close>, whose event sits under \<^verbatim>\<open>.data\<close> (as the handler itself assumes two
  statements later, in \<^verbatim>\<open>resource: existingEvent.data\<close>), so the read throws a TypeError:
  the request ends in the apology and no update call is issued. Were \<^verbatim>\<open>.start\<close> and
  \<^verbatim>\<open>.end\<close> present on the fetched object, the merge would run (start 16:00 UTC, which is
  11:00 in Chicago), but it is assigned to them and the body written back is the
  untouched \<^verbatim>\<open>.data\<close>, still starting at 14:00 UTC.
\<close>

theorem update_new_time_only_does_not_merge:
  "update_event chicago_runtime default_env
       (Some (scripted_provider (Inr None) (Inr fetched_dentist) (Inr dentist_event)))
       (Some (Body (Some new_time_only))) 0
     = \<lparr>response = json_result update_apology,
        calls = [(EventsGet \<lparr>g_calendarId = ''colinyuan3333@gmail.com'', g_eventId = ''abc123''\<rparr>,
                  Returned)],
        final = 0\<rparr>
   \<and> apply_new_date_time chicago_runtime new_time_only fetched_dentist_flat
     = Inr (fetched_dentist_flat
             \<lparr>r_start := Some \<lparr>dateTime = Some ''2024-06-01T16:00:00.000Z'', date = None,
                                 timeZone = Some ''America/Chicago''\<rparr>,
              r_end := Some \<lparr>dateTime = Some ''2024-06-01T17:00:00.000Z'', date = None,
                               timeZone = Some ''America/Chicago''\<rparr>\<rparr>)
   \<and> calls (update_event chicago_runtime default_env
       (Some (scripted_provider (Inr None) (Inr fetched_dentist_flat) (Inr dentist_event)))
       (Some (Body (Some new_time_only))) 0)
     = [(EventsGet \<lparr>g_calendarId = ''colinyuan3333@gmail.com'', g_eventId = ''abc123''\<rparr>,
          Returned),
        (EventsUpdate \<lparr>u_calendarId = ''colinyuan3333@gmail.com'', u_eventId = ''abc123'',
                         u_resource = Some dentist_event\<rparr>, Returned)]
   \<and> map_option dateTime (start dentist_event) = Some (Some ''2024-06-01T14:00:00.000Z'')"
  by code_simp

text \<open>
  Claim C6 does not hold of the code. The merge sits under \<^verbatim>\<open>if (newDate || newTime)\<close>, so a
  request with only \<^verbatim>\<open>newDuration\<close>, which the validation accepts, skips it: the handler
  writes the fetched event back as it was (here still 14:00 to 15:00 UTC, not 14:00 to
  14:30) and reports success.
\<close>

theorem update_new_duration_only_writes_back_unchanged:
  "update_event chicago_runtime default_env
       (Some (scripted_provider (Inr None) (Inr fetched_dentist) (Inr dentist_event)))
       (Some (Body (Some new_duration_only))) 0
     = \<lparr>response = \<lparr>status = 200, result = updated_message None None,
                      eventId = Some ''abc123'', eventLink = None\<rparr>,
        calls = [(EventsGet \<lparr>g_calendarId = ''colinyuan3333@gmail.com'', g_eventId = ''abc123''\<rparr>,
                  Returned),
                 (EventsUpdate \<lparr>u_calendarId = ''colinyuan3333@gmail.com'', u_eventId = ''abc123'',
                                  u_resource = Some dentist_event\<rparr>, Returned)],
        final = 1\<rparr>
   \<and> map_option dateTime (end' dentist_event) = Some (Some ''2024-06-01T15:00:00.000Z'')"
  by code_simp

subsection \<open>Further properties of the handlers\<close>

text \<open>
  Whatever the request and whatever object \<^verbatim>\<open>events.get\<close> resolves to, the resource of an
  update call of \<^verbatim>\<open>index.js\<close> is the \<^verbatim>\<open>.data\<close> of the fetched object as it was fetched: the
  merged date, time and duration never reach the provider.
\<close>

theorem update_writes_back_fetched_data:
  assumes "(EventsUpdate up, x) \<in> set (calls (update_event rt ev calendar req s))"
  shows "\<exists>c gp fetched. calendar = Some c \<and> events_get c gp s = Inr fetched
           \<and> u_resource up = r_data fetched"
proof (cases calendar)
  case None
  with assms show ?thesis by (simp add: update_event_def requireCalendar_def)
next
  case (Some c)
  obtain r cs s' where b: "update_event_body rt ev c req s = (r, cs, s')"
    by (cases "update_event_body rt ev c req s") auto
  with assms Some have "(EventsUpdate up, x) \<in> set cs"
    by (simp add: update_event_def requireCalendar_def)
  from update_event_body_resource [OF b this] Some show ?thesis by blast
qed

theorem update_writes_back_fetched_data_witness:
  "\<exists>c gp fetched.
      Some (scripted_provider (Inr None) (Inr fetched_dentist) (Inr dentist_event)) = Some c
      \<and> events_get c gp (0::nat) = Inr fetched \<and> Some dentist_event = r_data fetched"
proof -
  have "calls (update_event chicago_runtime default_env
       (Some (scripted_provider (Inr None) (Inr fetched_dentist) (Inr dentist_event)))
       (Some (Body (Some new_duration_only))) 0)
     = [(EventsGet \<lparr>g_calendarId = ''colinyuan3333@gmail.com'', g_eventId = ''abc123''\<rparr>,
          Returned),
        (EventsUpdate \<lparr>u_calendarId = ''colinyuan3333@gmail.com'', u_eventId = ''abc123'',
                         u_resource = Some dentist_event\<rparr>, Returned)]"
    by code_simp
  then have "(EventsUpdate \<lparr>u_calendarId = ''colinyuan3333@gmail.com'', u_eventId = ''abc123'',
                         u_resource = Some dentist_event\<rparr>, Returned)
      \<in> set (calls (update_event chicago_runtime default_env
       (Some (scripted_provider (Inr None) (Inr fetched_dentist) (Inr dentist_event)))
       (Some (Body (Some new_duration_only))) 0))"
    by simp
  from update_writes_back_fetched_data [OF this] show ?thesis
    by simp
qed

text \<open>
  The bounds of the list call of \<^verbatim>\<open>index.js\<close>'s availability check are the request's date and
  times read by \<^verbatim>\<open>new Date\<close> in the runtime's zone; the environment enters the call only
  through its \<^verbatim>\<open>timeZone\<close> parameter (and the calendar identifier).
\<close>

theorem availability_window_ignores_environment:
  assumes "(EventsList p, x) \<in> set (calls (check_availability rt ev calendar (Some (Body (Some args))) s))"
  shows "toISOString (new_Date rt (tmpl (ca_date args) @ ''T'' @ tmpl (ca_startTime args) @ '':00''))
           = Inr (l_timeMin p)
       \<and> toISOString (new_Date rt (tmpl (ca_date args) @ ''T'' @ tmpl (ca_endTime args) @ '':00''))
           = Inr (l_timeMax p)
       \<and> l_timeZone p = Some (configured_timezone ev)"
  using assms
  by (cases calendar)
     (auto simp: check_availability_def requireCalendar_def try_catch_def
           check_availability_body_def avail_args_of_def Let_def
           split: sum.splits option.splits if_splits)

theorem availability_window_ignores_environment_witness:
  "toISOString (new_Date utc_runtime
       (tmpl (ca_date availability_args) @ ''T'' @ tmpl (ca_startTime availability_args) @ '':00''))
     = Inr ''2024-06-01T09:00:00.000Z''
   \<and> toISOString (new_Date utc_runtime
       (tmpl (ca_date availability_args) @ ''T'' @ tmpl (ca_endTime availability_args) @ '':00''))
     = Inr ''2024-06-01T10:00:00.000Z''
   \<and> Some ''America/Chicago'' = Some (configured_timezone chicago_env)"
proof -
  have "calls (check_availability utc_runtime chicago_env
       (Some (scripted_provider (Inr (Some [])) (Inl TypeError) (Inl TypeError)))
       (Some (Body (Some availability_args))) 0)
     = [(EventsList \<lparr>l_calendarId = ''colinyuan3333@gmail.com'',
                       l_timeMin = ''2024-06-01T09:00:00.000Z'',
                       l_timeMax = ''2024-06-01T10:00:00.000Z'',
                       l_singleEvents = True, l_orderBy = Some ''startTime'',
                       l_timeZone = Some ''America/Chicago''\<rparr>, Returned)]"
    by code_simp
  then have "(EventsList \<lparr>l_calendarId = ''colinyuan3333@gmail.com'',
                       l_timeMin = ''2024-06-01T09:00:00.000Z'',
                       l_timeMax = ''2024-06-01T10:00:00.000Z'',
                       l_singleEvents = True, l_orderBy = Some ''startTime'',
                       l_timeZone = Some ''America/Chicago''\<rparr>, Returned)
      \<in> set (calls (check_availability utc_runtime chicago_env
       (Some (scripted_provider (Inr (Some [])) (Inl TypeError) (Inl TypeError)))
       (Some (Body (Some availability_args))) 0))"
    by simp
  from availability_window_ignores_environment [OF this] show ?thesis
    by simp
qed

text \<open>
  The availability check of \<^verbatim>\<open>server.js\<close>, once the provider has returned its list: the
  result is the free message when the list is empty and the count message otherwise, and
  the two messages never coincide.
\<close>

theorem server_availability_matches_event_list:
  assumes "toISOString (new_Date rt (tmpl (ca_date args) @ ''T'' @ tmpl (ca_startTime args) @ '':00'')) = Inr timeMin"
    and "toISOString (new_Date rt (tmpl (ca_date args) @ ''T'' @ tmpl (ca_endTime args) @ '':00'')) = Inr timeMax"
    and "p = \<lparr>l_calendarId = ''primary'', l_timeMin = timeMin, l_timeMax = timeMax,
               l_singleEvents = True, l_orderBy = Some ''startTime'', l_timeZone = None\<rparr>"
    and "events_list c p s = Inr items"
    and "events = (case items of None \<Rightarrow> [] | Some xs \<Rightarrow> xs)"
    and "out = server_check_availability rt (Auth (Inr c)) (Some (Body (Some args))) s"
  shows "calls out = [(EventsList p, Returned)]
     \<and> response out = json_result
          (if events = []
           then server_free_message (tmpl (ca_date args)) (tmpl (ca_startTime args)) (tmpl (ca_endTime args))
           else server_busy_message (length events) (tmpl (ca_date args)) (tmpl (ca_startTime args))
                  (tmpl (ca_endTime args)))
     \<and> (\<forall>n a b d a' b' d'. server_busy_message n a b d \<noteq> server_free_message a' b' d')"
  unfolding assms(6) assms(5)
  using assms(1,2,4) unfolding assms(3)
  by (auto simp: server_check_availability_def try_catch_def server_check_availability_body_def
        Let_def json_result_def server_busy_message_def server_free_message_def
        split: option.splits)

theorem server_availability_matches_event_list_witness:
  "response (server_check_availability chicago_runtime
       (Auth (Inr (scripted_provider (Inr (Some [dentist_event])) (Inl TypeError) (Inl TypeError))))
       (Some (Body (Some availability_args))) 0)
     = json_result (server_busy_message 1 ''2024-06-01'' ''09:00'' ''10:00'')"
proof -
  have h1: "toISOString (new_Date chicago_runtime
      (tmpl (ca_date availability_args) @ ''T'' @ tmpl (ca_startTime availability_args) @ '':00''))
      = Inr ''2024-06-01T14:00:00.000Z''"
    by (simp add: availability_args_def tmpl_def chicago_0900 iso_1400Z)
  have h2: "toISOString (new_Date chicago_runtime
      (tmpl (ca_date availability_args) @ ''T'' @ tmpl (ca_endTime availability_args) @ '':00''))
      = Inr ''2024-06-01T15:00:00.000Z''"
    by (simp add: availability_args_def tmpl_def chicago_1000 iso_1500Z)
  have h4: "events_list (scripted_provider (Inr (Some [dentist_event])) (Inl TypeError) (Inl TypeError))
      \<lparr>l_calendarId = ''primary'', l_timeMin = ''2024-06-01T14:00:00.000Z'',
       l_timeMax = ''2024-06-01T15:00:00.000Z'', l_singleEvents = True,
       l_orderBy = Some ''startTime'', l_timeZone = None\<rparr> 0
      = Inr (Some [dentist_event])"
    by (simp add: scripted_provider_def)
  from server_availability_matches_event_list [OF h1 h2 refl h4 refl refl]
  show ?thesis
    by (simp add: availability_args_def tmpl_def)
qed

end
